theory Spec2Isabelle
  imports Main "HOL-Library.Char_ord" "HOL-Library.List_Lexorder"
begin

section \<open>Python values, strings and exceptions\<close>

text \<open>
  The values that travel through \<^verbatim>\<open>snowflake-mcp/server.py\<close>: \<^verbatim>\<open>None\<close>, booleans,
  unbounded integers, strings, lists, tuples and dicts with string keys (a dict keeps its
  insertion order, so it is an association list). Floats are left out.
  A Python \<^verbatim>\<open>str\<close> is a \<open>string\<close> whose characters are the code points below 256.
\<close>

datatype pyval =
    PNone
  | PBool bool
  | PInt int
  | PStr string
  | PList "pyval list"
  | PTuple "pyval list"
  | PDict "(string \<times> pyval) list"

text \<open>
  An exception, with \<^verbatim>\<open>type(e).__name__\<close> and \<^verbatim>\<open>str(e)\<close>: \<open>PyExc\<close> an instance of
  \<^verbatim>\<open>Exception\<close>, which \<^verbatim>\<open>except Exception\<close> catches; \<open>PyBaseExc\<close> an instance of
  \<^verbatim>\<open>BaseException\<close> only (\<^verbatim>\<open>KeyboardInterrupt\<close>, \<^verbatim>\<open>SystemExit\<close>), which it lets through.
\<close>

datatype py_exc =
    is_Exception: PyExc (exc_type: string) (exc_str: string)
  | PyBaseExc (exc_type: string) (exc_str: string)

text \<open>Truthiness, as \<^verbatim>\<open>if v\<close> and \<^verbatim>\<open>v or d\<close> test it.\<close>

fun py_truthy :: "pyval \<Rightarrow> bool" where
  "py_truthy PNone = False"
| "py_truthy (PBool b) = b"
| "py_truthy (PInt n) = (n \<noteq> 0)"
| "py_truthy (PStr s) = (s \<noteq> [])"
| "py_truthy (PList vs) = (vs \<noteq> [])"
| "py_truthy (PTuple vs) = (vs \<noteq> [])"
| "py_truthy (PDict kvs) = (kvs \<noteq> [])"

text \<open>
  \<^verbatim>\<open>str.isspace\<close> on one character, for the code points below 256: tab to carriage
  return, the four separators 0x1C to 0x1F, space, NEL and the no-break space.
\<close>

definition py_isspace :: "char \<Rightarrow> bool" where
  "py_isspace c =
     (let n = (of_char c :: nat)
      in (9 \<le> n \<and> n \<le> 13) \<or> (28 \<le> n \<and> n \<le> 32) \<or> n = 133 \<or> n = 160)"

text \<open>\<^verbatim>\<open>s.strip()\<close>: whitespace removed at both ends.\<close>

definition py_strip :: "string \<Rightarrow> string" where
  "py_strip s = rev (dropWhile py_isspace (rev (dropWhile py_isspace s)))"

definition sq :: string where
  "sq = [CHR 0x27]"

section \<open>snowflake-mcp/server.py\<close>

subsection \<open>The preconfigured queries\<close>

definition basic_query_sql :: string where
  "basic_query_sql =
     ''\<newline>SELECT\<newline>'' @
     ''  CURRENT_USER()      AS user,\<newline>'' @
     ''  CURRENT_ROLE()      AS role,\<newline>'' @
     ''  CURRENT_WAREHOUSE() AS warehouse,\<newline>'' @
     ''  CURRENT_DATABASE()  AS database,\<newline>'' @
     ''  CURRENT_SCHEMA()    AS schema;\<newline>''"

definition QUERIES :: "(string \<times> string) list" where
  "QUERIES = [(''basic_query'', basic_query_sql)]"

subsection \<open>Helpers\<close>

text \<open>
  \<^verbatim>\<open>_normalize_ilike(pattern)\<close>, for \<^verbatim>\<open>pattern\<close> either \<^verbatim>\<open>None\<close> or a \<^verbatim>\<open>str\<close>
  (on a \<^verbatim>\<open>str\<close>, \<^verbatim>\<open>str(pattern)\<close> is the pattern itself).
\<close>

definition normalize_ilike :: "string option \<Rightarrow> string option" where
  "normalize_ilike pattern =
     (case pattern of
        None \<Rightarrow> None
      | Some s \<Rightarrow>
          (let p = py_strip s
           in if p = [] then None
              else if CHR ''%'' \<notin> set p then Some (''%'' @ p @ ''%'')
              else Some p))"


subsection \<open>The process environment, the interpreter and the warehouse collaborator\<close>

text \<open>
  What \<^verbatim>\<open>run_saved_query\<close> asks of the connector, in the order asked:
  \<^verbatim>\<open>snowflake.connector.connect(**kwargs)\<close>, \<^verbatim>\<open>conn.cursor()\<close>,
  \<^verbatim>\<open>cur.execute(sql, binds)\<close>, \<^verbatim>\<open>cur.fetchmany(n)\<close> and the two \<^verbatim>\<open>__exit__\<close> calls
  that leave the \<^verbatim>\<open>with\<close> blocks.
\<close>

datatype event =
    Connect "(string \<times> pyval) list"
  | Cursor
  | Execute string pyval
  | Fetchmany int
  | CursorExit
  | ConnExit

text \<open>
  The cursor after a successful \<^verbatim>\<open>execute\<close>: \<^verbatim>\<open>cur.description\<close> (\<^verbatim>\<open>None\<close> or a
  sequence of column descriptors, each a tuple) and what \<^verbatim>\<open>cur.fetchmany(n)\<close> gives.
\<close>

record cursor_result =
  description :: "pyval list list option"
  fetchmany :: "int \<Rightarrow> py_exc + pyval list"

text \<open>
  Everything outside the two source files: \<^verbatim>\<open>os.environ\<close>, the interpreter's
  \<^verbatim>\<open>int(s)\<close> on a \<^verbatim>\<open>str\<close>, the outcome of each connector call (an exception or a
  value) and \<^verbatim>\<open>traceback.format_exc().splitlines()\<close> for a caught exception.
  For \<open>connector_connect\<close>, \<open>conn_cursor\<close> and the two exits, \<open>None\<close> says that the call
  returns and \<open>Some e\<close> that it raises \<open>e\<close>. Entering a \<^verbatim>\<open>with\<close> block returns the object
  itself and raises nothing.
\<close>

record world =
  environ :: "string \<Rightarrow> string option"
  int_of_str :: "string \<Rightarrow> py_exc + int"
  connector_connect :: "(string \<times> pyval) list \<Rightarrow> py_exc option"
  conn_cursor :: "py_exc option"
  cur_execute :: "string \<Rightarrow> pyval \<Rightarrow> py_exc + cursor_result"
  cur_exit :: "py_exc option"
  conn_exit :: "py_exc option"
  format_exc_lines :: "py_exc \<Rightarrow> string list"

text \<open>A computation: the value returned or the exception raised, and the connector calls made.\<close>

type_synonym 'a io = "(py_exc + 'a) \<times> event list"

text \<open>\<^verbatim>\<open>os.environ.get(name)\<close>.\<close>

definition environ_get :: "world \<Rightarrow> string \<Rightarrow> pyval" where
  "environ_get w name = (case environ w name of None \<Rightarrow> PNone | Some v \<Rightarrow> PStr v)"


text \<open>The keyword arguments of \<^verbatim>\<open>_connect\<close>, after \<^verbatim>\<open>None\<close> and empty values are removed.\<close>

definition conn_kwargs :: "world \<Rightarrow> string \<Rightarrow> (string \<times> pyval) list" where
  "conn_kwargs w authenticator =
     filter (\<lambda>(k, v). py_truthy v)
       [(''account'', PStr ''uipath_observability.west-europe.azure''),
        (''user'', PStr ''anurag.krishna@uipath.com''),
        (''warehouse'', PStr ''PROD_CUSTOMER_READ''),
        (''role'', environ_get w ''SNOWFLAKE_ROLE''),
        (''database'', environ_get w ''SNOWFLAKE_DATABASE''),
        (''schema'', environ_get w ''SNOWFLAKE_SCHEMA''),
        (''authenticator'', PStr authenticator),
        (''client_session_keep_alive'', PBool True)]"

definition connect :: "world \<Rightarrow> unit io" where
  "connect w =
     (let authenticator =
            (case environ w ''SNOWFLAKE_AUTHENTICATOR'' of
               None \<Rightarrow> ''externalbrowser''
             | Some a \<Rightarrow> a)
      in if authenticator \<noteq> ''externalbrowser''
         then (Inl (PyExc ''ValueError''
                 (''SSO-only server: SNOWFLAKE_AUTHENTICATOR must be '' @ sq @ ''externalbrowser''
                    @ sq @ '' (got '' @ sq @ authenticator @ sq @ '')'')), [])
         else (let kw = conn_kwargs w authenticator
               in ((case connector_connect w kw of Some e \<Rightarrow> Inl e | None \<Rightarrow> Inr ()),
                   [Connect kw])))"

subsection \<open>MCP tools\<close>

definition params_for :: "string \<Rightarrow> pyval \<Rightarrow> pyval" where
  "params_for query_id params = PNone"

text \<open>
  \<^verbatim>\<open>int(v)\<close>: an \<^verbatim>\<open>int\<close> is itself, a \<^verbatim>\<open>bool\<close> is 0 or 1, a \<^verbatim>\<open>str\<close> is parsed by the
  interpreter, anything else here raises \<^verbatim>\<open>TypeError\<close>.
\<close>

definition int_type_error :: "string \<Rightarrow> py_exc" where
  "int_type_error tname =
     PyExc ''TypeError''
       (''int() argument must be a string, a bytes-like object or a real number, not ''
          @ sq @ tname @ sq)"

fun py_int :: "world \<Rightarrow> pyval \<Rightarrow> py_exc + int" where
  "py_int w (PInt n) = Inr n"
| "py_int w (PBool b) = Inr (if b then 1 else 0)"
| "py_int w (PStr s) = int_of_str w s"
| "py_int w PNone = Inl (int_type_error ''NoneType'')"
| "py_int w (PList vs) = Inl (int_type_error ''list'')"
| "py_int w (PTuple vs) = Inl (int_type_error ''tuple'')"
| "py_int w (PDict kvs) = Inl (int_type_error ''dict'')"

text \<open>\<^verbatim>\<open>[c[0] for c in cur.description] if cur.description else []\<close>.\<close>

fun first_items :: "pyval list list \<Rightarrow> py_exc + pyval list" where
  "first_items [] = Inr []"
| "first_items (c # cs) =
     (case c of
        [] \<Rightarrow> Inl (PyExc ''IndexError'' ''tuple index out of range'')
      | name # _ \<Rightarrow>
          (case first_items cs of
             Inl e \<Rightarrow> Inl e
           | Inr names \<Rightarrow> Inr (name # names)))"

definition column_names :: "pyval list list option \<Rightarrow> py_exc + pyval list" where
  "column_names desc =
     (case desc of
        None \<Rightarrow> Inr []
      | Some cs \<Rightarrow> if cs = [] then Inr [] else first_items cs)"

text \<open>
  Leaving a \<^verbatim>\<open>with\<close> block: \<^verbatim>\<open>__exit__\<close> runs whether the body returned or raised; an
  exception of \<^verbatim>\<open>__exit__\<close> replaces the body's outcome, otherwise the body's outcome stands
  (the connector's \<^verbatim>\<open>__exit__\<close> methods return \<^verbatim>\<open>None\<close>, so they suppress nothing).
\<close>

definition with_exit :: "'a io \<Rightarrow> py_exc option \<Rightarrow> event \<Rightarrow> 'a io" where
  "with_exit body ex ev =
     (case body of
        (r, t) \<Rightarrow> (case ex of Some e \<Rightarrow> (Inl e, t @ [ev]) | None \<Rightarrow> (r, t @ [ev])))"

text \<open>The body of \<^verbatim>\<open>with conn.cursor() as cur\<close>.\<close>

definition cursor_body ::
  "world \<Rightarrow> string \<Rightarrow> string \<Rightarrow> pyval \<Rightarrow> pyval \<Rightarrow> int \<Rightarrow> (string \<times> pyval) list io" where
  "cursor_body w query_id sql binds params max_rows =
     (case cur_execute w sql binds of
        Inl e \<Rightarrow> (Inl e, [Execute sql binds])
      | Inr cur \<Rightarrow>
          (case column_names (description cur) of
             Inl e \<Rightarrow> (Inl e, [Execute sql binds])
           | Inr cols \<Rightarrow>
               (case fetchmany cur max_rows of
                  Inl e \<Rightarrow> (Inl e, [Execute sql binds, Fetchmany max_rows])
                | Inr rows \<Rightarrow>
                    (Inr [(''ok'', PBool True),
                          (''query_id'', PStr query_id),
                          (''params_used'', if py_truthy params then params else PDict []),
                          (''columns'', PList cols),
                          (''rows'', PList rows),
                          (''row_count_returned'', PInt (int (length rows))),
                          (''row_limit'', PInt max_rows)],
                     [Execute sql binds, Fetchmany max_rows]))))"

text \<open>The body of \<^verbatim>\<open>with _connect() as conn\<close>.\<close>

definition conn_body ::
  "world \<Rightarrow> string \<Rightarrow> string \<Rightarrow> pyval \<Rightarrow> pyval \<Rightarrow> int \<Rightarrow> (string \<times> pyval) list io" where
  "conn_body w query_id sql binds params max_rows =
     (case conn_cursor w of
        Some e \<Rightarrow> (Inl e, [Cursor])
      | None \<Rightarrow>
          (case with_exit (cursor_body w query_id sql binds params max_rows) (cur_exit w) CursorExit of
             (r, t) \<Rightarrow> (r, Cursor # t)))"

text \<open>The \<^verbatim>\<open>try\<close> block.\<close>

definition try_block ::
  "world \<Rightarrow> string \<Rightarrow> string \<Rightarrow> pyval \<Rightarrow> int \<Rightarrow> (string \<times> pyval) list io" where
  "try_block w query_id sql params max_rows =
     (let binds = PNone
      in case connect w of
           (Inl e, t) \<Rightarrow> (Inl e, t)
         | (Inr conn, t) \<Rightarrow>
             (case with_exit (conn_body w query_id sql binds params max_rows) (conn_exit w) ConnExit of
                (r, t') \<Rightarrow> (r, t @ t')))"

text \<open>\<^verbatim>\<open>lines[-20:]\<close>.\<close>

definition last20 :: "'a list \<Rightarrow> 'a list" where
  "last20 ls = drop (length ls - 20) ls"

text \<open>The dict built by the \<^verbatim>\<open>except Exception as e\<close> handler.\<close>

definition failure_response :: "world \<Rightarrow> string \<Rightarrow> py_exc \<Rightarrow> (string \<times> pyval) list" where
  "failure_response w query_id e =
     [(''ok'', PBool False),
      (''query_id'', PStr query_id),
      (''error_type'', PStr (exc_type e)),
      (''error'', PStr (exc_str e)),
      (''traceback_tail'', PList (map PStr (last20 (format_exc_lines w e))))]"

definition run_saved_query ::
  "world \<Rightarrow> string \<Rightarrow> pyval \<Rightarrow> pyval \<Rightarrow> (string \<times> pyval) list io" where
  "run_saved_query w query_id params max_rows =
     (case map_of QUERIES query_id of
        None \<Rightarrow>
          (Inr [(''ok'', PBool False),
                (''error'', PStr (''Unknown query_id '' @ sq @ query_id @ sq)),
                (''allowed'', PList (map PStr (sort (map fst QUERIES))))],
           [])
      | Some sql \<Rightarrow>
          (case py_int w max_rows of
             Inl e \<Rightarrow> (Inl e, [])
           | Inr n \<Rightarrow>
               (let max_rows = max 1 (min n 5000)
                in case try_block w query_id sql params max_rows of
                     (Inl e, t) \<Rightarrow>
                       if is_Exception e then (Inr (failure_response w query_id e), t)
                       else (Inl e, t)
                   | (Inr d, t) \<Rightarrow> (Inr d, t))))"

subsection \<open>What the handler relies on\<close>

text \<open>
  The DB-API 2.0 contract of a cursor, which \<^verbatim>\<open>run_saved_query\<close> relies on and does not
  check: \<^verbatim>\<open>fetchmany(n)\<close> returns at most \<open>n\<close> rows, and every row is a tuple with one
  item for each column of \<^verbatim>\<open>description\<close>.
\<close>

definition dbapi_cursor :: "cursor_result \<Rightarrow> bool" where
  "dbapi_cursor cur \<longleftrightarrow>
     (\<forall>n rows. 1 \<le> n \<longrightarrow> fetchmany cur n = Inr rows \<longrightarrow>
        int (length rows) \<le> n
        \<and> (\<forall>r\<in>set rows. \<exists>vs. r = PTuple vs
              \<and> length vs = (case description cur of None \<Rightarrow> 0 | Some cs \<Rightarrow> length cs)))"

definition dbapi_world :: "world \<Rightarrow> bool" where
  "dbapi_world w \<longleftrightarrow> (\<forall>sql binds cur. cur_execute w sql binds = Inr cur \<longrightarrow> dbapi_cursor cur)"






section \<open>run_mcp_tool.py\<close>

text \<open>
  \<^verbatim>\<open>read_rpc_response(process)\<close> over the lines still to come on the server's standard
  output, each as \<^verbatim>\<open>readline()\<close> returns it (with its line end): \<open>Inr\<close> the text when
  the bytes are UTF-8, \<open>Inl\<close> the \<^verbatim>\<open>UnicodeDecodeError\<close> of \<^verbatim>\<open>decode\<close> otherwise. After
  the last line \<^verbatim>\<open>readline()\<close> returns \<^verbatim>\<open>b''\<close>. \<^verbatim>\<open>json.loads\<close> is the parameter \<open>loads\<close>,
  \<open>None\<close> where it raises \<^verbatim>\<open>JSONDecodeError\<close>. The result is the value returned or the
  exception raised, the lines printed, and the lines left unread.
\<close>

fun read_rpc_response ::
  "(string \<Rightarrow> pyval option) \<Rightarrow> (py_exc + string) list
     \<Rightarrow> (py_exc + pyval) \<times> string list \<times> (py_exc + string) list" where
  "read_rpc_response loads [] = (Inr PNone, [], [])"
| "read_rpc_response loads (raw # rest) =
     (case raw of
        Inl e \<Rightarrow> (Inl e, [], rest)
      | Inr text \<Rightarrow>
          (let line = py_strip text
           in if line \<noteq> [] then
                (case loads line of
                   Some msg \<Rightarrow> (Inr msg, [], rest)
                 | None \<Rightarrow>
                     (case read_rpc_response loads rest of
                        (r, out, rest') \<Rightarrow> (r, (''Non-JSON output: '' @ line) # out, rest')))
              else (Inr PNone, [], rest)))"

section \<open>Example worlds\<close>

text \<open>
  A warehouse that accepts the connection and answers the query with one row of two
  columns, in a process with an empty environment. Its interpreter parses no string as an
  integer.
\<close>

definition demo_cursor :: cursor_result where
  "demo_cursor =
     \<lparr>description = Some [[PStr ''USER'', PInt 2], [PStr ''ROLE'', PInt 2]],
      fetchmany = (\<lambda>n. Inr (take (nat n) [PTuple [PStr ''ANURAG'', PStr ''READER'']]))\<rparr>"

definition demo_world :: world where
  "demo_world =
     \<lparr>environ = Map.empty,
      int_of_str = (\<lambda>s. Inl (PyExc ''ValueError'' ''invalid literal for int()'')),
      connector_connect = (\<lambda>kw. None),
      conn_cursor = None,
      cur_execute = (\<lambda>sql binds. Inr demo_cursor),
      cur_exit = None,
      conn_exit = None,
      format_exc_lines = (\<lambda>e. [''Traceback (most recent call last):'', exc_type e @ '': '' @ exc_str e])\<rparr>"

text \<open>The same warehouse refusing the connection.\<close>

definition refusing_world :: world where
  "refusing_world =
     demo_world\<lparr>connector_connect :=
       (\<lambda>kw. Some (PyExc ''DatabaseError'' ''250001: Could not connect to Snowflake backend''))\<rparr>"

text \<open>The same warehouse refusing a connection made without a role.\<close>

definition strict_world :: world where
  "strict_world =
     demo_world\<lparr>connector_connect :=
       (\<lambda>kw. if map_of kw ''role'' = None
             then Some (PyExc ''ProgrammingError'' ''No active role for this session'')
             else None)\<rparr>"

text \<open>The same warehouse, the user interrupting the browser sign-on.\<close>

definition interrupted_world :: world where
  "interrupted_world =
     demo_world\<lparr>connector_connect := (\<lambda>kw. Some (PyBaseExc ''KeyboardInterrupt'' []))\<rparr>"

text \<open>The same warehouse in a process that sets a password authenticator.\<close>

definition password_world :: world where
  "password_world = demo_world\<lparr>environ := [''SNOWFLAKE_AUTHENTICATOR'' \<mapsto> ''password'']\<rparr>"

text \<open>
  A cursor outside the DB-API contract: no description, and two rows of one item each
  whatever the size asked for.
\<close>

definition overfull_world :: world where
  "overfull_world =
     demo_world\<lparr>cur_execute :=
       (\<lambda>sql binds. Inr \<lparr>description = None,
                          fetchmany = (\<lambda>n. Inr [PTuple [PInt 1], PTuple [PInt 2]])\<rparr>)\<rparr>"

section \<open>Properties\<close>

subsection \<open>Stripping\<close>

lemma dropWhile_split:
  "\<exists>l. s = l @ dropWhile P s \<and> (\<forall>c\<in>set l. P c)"
proof
  show "s = takeWhile P s @ dropWhile P s \<and> (\<forall>c\<in>set (takeWhile P s). P c)"
    by (auto dest: set_takeWhileD)
qed

lemma dropWhile_hd: "dropWhile P s \<noteq> [] \<Longrightarrow> \<not> P (hd (dropWhile P s))"
  by (rule hd_dropWhile)

lemma py_strip_split:
  "\<exists>l r. s = l @ py_strip s @ r \<and> (\<forall>c\<in>set l. py_isspace c) \<and> (\<forall>c\<in>set r. py_isspace c)"
proof -
  let ?d = "dropWhile py_isspace s"
  obtain l where l: "s = l @ ?d" "\<forall>c\<in>set l. py_isspace c"
    using dropWhile_split [of s py_isspace] by blast
  obtain r' where r': "rev ?d = r' @ dropWhile py_isspace (rev ?d)" "\<forall>c\<in>set r'. py_isspace c"
    using dropWhile_split [of "rev ?d" py_isspace] by blast
  have "?d = rev (rev ?d)" by simp
  also have "\<dots> = rev (r' @ dropWhile py_isspace (rev ?d))" using r'(1) by simp
  also have "\<dots> = py_strip s @ rev r'" by (simp add: py_strip_def)
  finally have "s = l @ py_strip s @ rev r'" using l(1) by simp
  moreover have "\<forall>c\<in>set (rev r'). py_isspace c" using r'(2) by simp
  ultimately show ?thesis using l(2) by blast
qed

lemma py_strip_last: "py_strip s \<noteq> [] \<Longrightarrow> \<not> py_isspace (last (py_strip s))"
proof -
  assume ne: "py_strip s \<noteq> []"
  let ?e = "dropWhile py_isspace (rev (dropWhile py_isspace s))"
  have "?e \<noteq> []" using ne by (simp add: py_strip_def)
  then have "\<not> py_isspace (hd ?e)" by (rule dropWhile_hd)
  moreover have "last (py_strip s) = hd ?e"
    using \<open>?e \<noteq> []\<close> by (simp add: py_strip_def last_rev)
  ultimately show ?thesis by simp
qed

lemma dropWhile_rev_keeps_hd:
  "\<not> P (hd xs) \<Longrightarrow> xs \<noteq> [] \<Longrightarrow> rev (dropWhile P (rev xs)) \<noteq> [] \<and> hd (rev (dropWhile P (rev xs))) = hd xs"
proof (induction xs rule: rev_induct)
  case Nil
  then show ?case by simp
next
  case (snoc x xs)
  show ?case
  proof (cases "xs = []")
    case True
    with snoc.prems show ?thesis by simp
  next
    case False
    then have h: "hd (xs @ [x]) = hd xs" by simp
    show ?thesis
    proof (cases "P x")
      case True
      have "\<not> P (hd xs)" using snoc.prems(1) h by simp
      then have "rev (dropWhile P (rev xs)) \<noteq> [] \<and> hd (rev (dropWhile P (rev xs))) = hd xs"
        using snoc.IH False by blast
      then show ?thesis using True h by simp
    next
      case Fx: False
      then show ?thesis by simp
    qed
  qed
qed

lemma py_strip_hd: "py_strip s \<noteq> [] \<Longrightarrow> \<not> py_isspace (hd (py_strip s))"
proof -
  assume ne: "py_strip s \<noteq> []"
  let ?d = "dropWhile py_isspace s"
  have d: "?d \<noteq> []"
  proof
    assume e: "?d = []"
    have "py_strip s = []" by (simp only: py_strip_def e rev.simps dropWhile.simps)
    with ne show False by simp
  qed
  then have "\<not> py_isspace (hd ?d)" by (rule dropWhile_hd)
  then have "hd (rev (dropWhile py_isspace (rev ?d))) = hd ?d"
    using d dropWhile_rev_keeps_hd [of py_isspace ?d] by blast
  then show ?thesis using \<open>\<not> py_isspace (hd ?d)\<close> by (simp add: py_strip_def)
qed

subsection \<open>The filter-pattern normalizer\<close>

text \<open>
  C8. \<^verbatim>\<open>_normalize_ilike\<close> is a total function of its string argument: the input \<open>s\<close>
  splits as \<open>l @ p @ r\<close> with \<open>l\<close> and \<open>r\<close> whitespace only and \<open>p\<close> neither starting nor
  ending with whitespace (\<open>p\<close> is the trimmed input); the result is \<^verbatim>\<open>None\<close> when \<open>p\<close> is
  empty, \<open>%p%\<close> when \<open>p\<close> has no \<open>%\<close>, and \<open>p\<close> itself otherwise. On \<^verbatim>\<open>None\<close> it
  returns \<^verbatim>\<open>None\<close>.
\<close>

theorem normalize_ilike_spec:
  "normalize_ilike None = None \<and>
   (\<exists>l p r. s = l @ p @ r \<and> p = py_strip s
      \<and> (\<forall>c\<in>set l. py_isspace c) \<and> (\<forall>c\<in>set r. py_isspace c)
      \<and> (p \<noteq> [] \<longrightarrow> \<not> py_isspace (hd p) \<and> \<not> py_isspace (last p))
      \<and> normalize_ilike (Some s) =
          (if p = [] then None
           else if CHR ''%'' \<notin> set p then Some (''%'' @ p @ ''%'')
           else Some p))"
proof -
  obtain l r where "s = l @ py_strip s @ r" "\<forall>c\<in>set l. py_isspace c" "\<forall>c\<in>set r. py_isspace c"
    using py_strip_split [of s] by blast
  moreover have "py_strip s \<noteq> [] \<longrightarrow>
      \<not> py_isspace (hd (py_strip s)) \<and> \<not> py_isspace (last (py_strip s))"
    using py_strip_hd py_strip_last by blast
  moreover have "normalize_ilike (Some s) =
      (if py_strip s = [] then None
       else if CHR ''%'' \<notin> set (py_strip s) then Some (''%'' @ py_strip s @ ''%'')
       else Some (py_strip s))"
    by (simp add: normalize_ilike_def Let_def)
  moreover have "normalize_ilike None = None"
    by (simp add: normalize_ilike_def)
  ultimately show ?thesis by blast
qed

theorem normalize_ilike_spec_witness:
  "normalize_ilike (Some ''  salesforce '') = Some ''%salesforce%''
   \<and> normalize_ilike (Some '' %sales% '') = Some ''%sales%''
   \<and> normalize_ilike (Some ''   '') = None"
  using normalize_ilike_spec [of "''  salesforce ''"]
  by (simp add: normalize_ilike_def py_strip_def py_isspace_def)

subsection \<open>The shape of a run\<close>

lemmas run_defs = run_saved_query_def try_block_def conn_body_def cursor_body_def with_exit_def
  connect_def conn_kwargs_def environ_get_def column_names_def failure_response_def last20_def
  QUERIES_def demo_world_def demo_cursor_def sq_def


lemmas world_defs = demo_world_def demo_cursor_def refusing_world_def strict_world_def
  interrupted_world_def password_world_def overfull_world_def

lemma snd_with_exit: "snd (with_exit body ex ev) = snd body @ [ev]"
  by (cases body; cases ex) (simp_all add: with_exit_def)

lemma fst_with_exit:
  "fst (with_exit body ex ev) = (case ex of Some e \<Rightarrow> Inl e | None \<Rightarrow> fst body)"
  by (cases body; cases ex) (simp_all add: with_exit_def)

lemma snd_cursor_body:
  "snd (cursor_body w q sql b p n) =
     (case cur_execute w sql b of
        Inl e \<Rightarrow> [Execute sql b]
      | Inr cur \<Rightarrow>
          (case column_names (description cur) of
             Inl e \<Rightarrow> [Execute sql b]
           | Inr cols \<Rightarrow> [Execute sql b, Fetchmany n]))"
  by (simp add: cursor_body_def split: sum.splits)

lemma snd_conn_body:
  "snd (conn_body w q sql b p n) =
     (case conn_cursor w of
        Some e \<Rightarrow> [Cursor]
      | None \<Rightarrow> Cursor # snd (cursor_body w q sql b p n) @ [CursorExit])"
  by (simp add: conn_body_def split_beta snd_with_exit split: option.splits)

lemma fst_conn_body:
  "fst (conn_body w q sql b p n) =
     (case conn_cursor w of
        Some e \<Rightarrow> Inl e
      | None \<Rightarrow>
          (case cur_exit w of
             Some e \<Rightarrow> Inl e
           | None \<Rightarrow> fst (cursor_body w q sql b p n)))"
  by (simp add: conn_body_def split_beta fst_with_exit split: option.splits)

lemma snd_try_block:
  "snd (try_block w q sql p n) =
     (case fst (connect w) of
        Inl e \<Rightarrow> snd (connect w)
      | Inr c \<Rightarrow> snd (connect w) @ snd (conn_body w q sql PNone p n) @ [ConnExit])"
  by (cases "connect w")
     (simp add: try_block_def split_beta snd_with_exit split: sum.splits)

lemma fst_try_block:
  "fst (try_block w q sql p n) =
     (case fst (connect w) of
        Inl e \<Rightarrow> Inl e
      | Inr c \<Rightarrow>
          (case conn_exit w of
             Some e \<Rightarrow> Inl e
           | None \<Rightarrow> fst (conn_body w q sql PNone p n)))"
  by (cases "connect w")
     (simp add: try_block_def split_beta fst_with_exit split: sum.splits option.splits)

lemma snd_run_saved_query:
  "snd (run_saved_query w q p m) =
     (case map_of QUERIES q of
        None \<Rightarrow> []
      | Some sql \<Rightarrow>
          (case py_int w m of
             Inl e \<Rightarrow> []
           | Inr n \<Rightarrow> snd (try_block w q sql p (max 1 (min n 5000)))))"
  by (simp add: run_saved_query_def Let_def split_beta split: option.splits sum.splits)

lemma fst_run_saved_query:
  "fst (run_saved_query w q p m) =
     (case map_of QUERIES q of
        None \<Rightarrow>
          Inr [(''ok'', PBool False),
               (''error'', PStr (''Unknown query_id '' @ sq @ q @ sq)),
               (''allowed'', PList (map PStr (sort (map fst QUERIES))))]
      | Some sql \<Rightarrow>
          (case py_int w m of
             Inl e \<Rightarrow> Inl e
           | Inr n \<Rightarrow>
               (case fst (try_block w q sql p (max 1 (min n 5000))) of
                  Inl e \<Rightarrow> if is_Exception e then Inr (failure_response w q e) else Inl e
                | Inr d \<Rightarrow> Inr d)))"
  by (simp add: run_saved_query_def Let_def split_beta split: option.splits sum.splits)

lemma snd_connect:
  "snd (connect w) = [] \<or> (\<exists>kw. snd (connect w) = [Connect kw])"
  by (simp add: connect_def Let_def)

lemma conn_body_params:
  "snd (conn_body w q sql b p n) = snd (conn_body w q sql b p' n)"
  by (simp add: snd_conn_body snd_cursor_body split: option.splits)

lemma try_block_params:
  "snd (try_block w q sql p n) = snd (try_block w q sql p' n)"
  by (simp add: snd_try_block conn_body_params [of w q sql PNone p n p'] split: sum.splits)

lemma try_block_events:
  "set (snd (try_block w q sql p n)) \<subseteq>
     set (snd (connect w)) \<union> {Cursor, Execute sql PNone, Fetchmany n, CursorExit, ConnExit}"
  by (auto simp: snd_try_block snd_conn_body snd_cursor_body split: sum.splits option.splits)

lemma try_block_execute:
  "Execute s b \<in> set (snd (try_block w q sql p n)) \<Longrightarrow> s = sql \<and> b = PNone"
  using try_block_events [of w q sql p n] snd_connect [of w] by auto

lemma try_block_fetchmany:
  "Fetchmany k \<in> set (snd (try_block w q sql p n)) \<Longrightarrow> k = n"
  using try_block_events [of w q sql p n] snd_connect [of w] by auto


lemma fst_cursor_body:
  "fst (cursor_body w q sql b p n) =
     (case cur_execute w sql b of
        Inl e \<Rightarrow> Inl e
      | Inr cur \<Rightarrow>
          (case column_names (description cur) of
             Inl e \<Rightarrow> Inl e
           | Inr cols \<Rightarrow>
               (case fetchmany cur n of
                  Inl e \<Rightarrow> Inl e
                | Inr rows \<Rightarrow>
                    Inr [(''ok'', PBool True),
                         (''query_id'', PStr q),
                         (''params_used'', if py_truthy p then p else PDict []),
                         (''columns'', PList cols),
                         (''rows'', PList rows),
                         (''row_count_returned'', PInt (int (length rows))),
                         (''row_limit'', PInt n)])))"
  by (simp add: cursor_body_def split: sum.splits)

lemma try_block_success:
  assumes "fst (try_block w q sql p n) = Inr d"
  shows "\<exists>cur cols rows.
           cur_execute w sql PNone = Inr cur
         \<and> column_names (description cur) = Inr cols
         \<and> fetchmany cur n = Inr rows
         \<and> d = [(''ok'', PBool True),
                (''query_id'', PStr q),
                (''params_used'', if py_truthy p then p else PDict []),
                (''columns'', PList cols),
                (''rows'', PList rows),
                (''row_count_returned'', PInt (int (length rows))),
                (''row_limit'', PInt n)]
         \<and> snd (try_block w q sql p n) =
               snd (connect w) @ [Cursor, Execute sql PNone, Fetchmany n, CursorExit, ConnExit]"
  using assms
  by (auto simp: fst_try_block fst_conn_body fst_cursor_body snd_try_block snd_conn_body
        snd_cursor_body split: sum.splits option.splits)

lemma failure_response_ok: "map_of (failure_response w q e) ''ok'' = Some (PBool False)"
  by (simp add: failure_response_def)

lemma QUERIES_keys: "map_of QUERIES q = None \<longleftrightarrow> q \<notin> fst ` set QUERIES"
  by (simp add: map_of_eq_None_iff)

lemma run_saved_query_unknown_eq:
  "map_of QUERIES q = None \<Longrightarrow>
     run_saved_query w q p m =
       (Inr [(''ok'', PBool False),
             (''error'', PStr (''Unknown query_id '' @ sq @ q @ sq)),
             (''allowed'', PList (map PStr (sort (map fst QUERIES))))], [])"
  by (simp add: run_saved_query_def)

subsection \<open>The query execution handler\<close>

text \<open>
  C1. For a whitelisted \<open>query_id\<close>, every \<^verbatim>\<open>cur.execute\<close> call of \<^verbatim>\<open>run_saved_query\<close>
  passes exactly the template \<open>QUERIES[query_id]\<close> as SQL text and \<^verbatim>\<open>None\<close> as binds; the
  connector calls made are the same whatever \<open>params\<close> is, so no parameter value reaches
  the SQL text. The bind builder \<^verbatim>\<open>_params_for\<close> returns \<^verbatim>\<open>None\<close>.
\<close>

theorem sql_text_fixed:
  assumes "map_of QUERIES query_id = Some sql"
  shows "(\<forall>s b. Execute s b \<in> set (snd (run_saved_query w query_id params max_rows))
            \<longrightarrow> s = sql \<and> b = PNone)
       \<and> snd (run_saved_query w query_id params max_rows)
           = snd (run_saved_query w query_id params' max_rows)
       \<and> params_for query_id params = PNone"
proof (intro conjI allI impI)
  fix s b
  assume "Execute s b \<in> set (snd (run_saved_query w query_id params max_rows))"
  then obtain n where "Execute s b \<in> set (snd (try_block w query_id sql params n))"
    using assms by (auto simp: snd_run_saved_query split: sum.splits)
  then have "s = sql \<and> b = PNone" by (rule try_block_execute)
  then show "s = sql" and "b = PNone" by simp_all
next
  show "snd (run_saved_query w query_id params max_rows)
          = snd (run_saved_query w query_id params' max_rows)"
    using assms
    by (simp add: snd_run_saved_query try_block_params [of w query_id sql params _ params']
          split: sum.splits)
next
  show "params_for query_id params = PNone" by (simp add: params_for_def)
qed

theorem sql_text_fixed_witness:
  "map_of QUERIES ''basic_query'' = Some basic_query_sql
   \<and> Execute basic_query_sql PNone
        \<in> set (snd (run_saved_query demo_world ''basic_query'' (PDict [(''month'', PInt 1)]) (PInt 500)))
   \<and> snd (run_saved_query demo_world ''basic_query'' (PDict [(''month'', PInt 1)]) (PInt 500))
       = snd (run_saved_query demo_world ''basic_query'' PNone (PInt 500))"
  using sql_text_fixed [of "''basic_query''" basic_query_sql demo_world
      "PDict [(''month'', PInt 1)]" "PInt 500" PNone]
  by (simp add: run_defs)

text \<open>
  C2. For a \<open>query_id\<close> outside the whitelist, \<^verbatim>\<open>run_saved_query\<close> returns the dict
  \<open>ok: False\<close>, \<open>error: Unknown query_id '<query_id>'\<close>, \<open>allowed:\<close> the sorted list of the
  whitelist's keys, and makes no connector call.
\<close>

theorem unknown_query_id:
  assumes "query_id \<notin> fst ` set QUERIES"
  shows "\<exists>ks. sorted ks \<and> distinct ks \<and> set ks = fst ` set QUERIES
           \<and> run_saved_query w query_id params max_rows =
               (Inr [(''ok'', PBool False),
                     (''error'', PStr (''Unknown query_id '' @ sq @ query_id @ sq)),
                     (''allowed'', PList (map PStr ks))], [])"
proof -
  have "map_of QUERIES query_id = None" using assms by (simp add: QUERIES_keys)
  then have "run_saved_query w query_id params max_rows =
       (Inr [(''ok'', PBool False),
             (''error'', PStr (''Unknown query_id '' @ sq @ query_id @ sq)),
             (''allowed'', PList (map PStr (sort (map fst QUERIES))))], [])"
    by (rule run_saved_query_unknown_eq)
  moreover have "sorted (sort (map fst QUERIES))" by simp
  moreover have "distinct (sort (map fst QUERIES))" by (simp add: QUERIES_def)
  moreover have "set (sort (map fst QUERIES)) = fst ` set QUERIES" by simp
  ultimately show ?thesis by blast
qed

theorem unknown_query_id_witness:
  "''does_not_exist'' \<notin> fst ` set QUERIES
   \<and> run_saved_query demo_world ''does_not_exist'' PNone (PInt 500) =
       (Inr [(''ok'', PBool False),
             (''error'', PStr (''Unknown query_id '' @ sq @ ''does_not_exist'' @ sq)),
             (''allowed'', PList [PStr ''basic_query''])], [])"
  using unknown_query_id [of "''does_not_exist''" demo_world PNone "PInt 500"]
  by (simp add: run_defs)

text \<open>
  C3. For every integer \<open>max_rows\<close>, zero, negative and above 5000 included, the limit passed
  to \<^verbatim>\<open>cur.fetchmany\<close> is \<open>max(1, min(max_rows, 5000))\<close>, so it lies in the closed interval
  from 1 to 5000; the \<open>row_limit\<close> of a successful response is that same limit.
\<close>

theorem row_limit_clamped:
  "(\<forall>k. Fetchmany k \<in> set (snd (run_saved_query w query_id params (PInt n)))
        \<longrightarrow> k = max 1 (min n 5000) \<and> 1 \<le> k \<and> k \<le> 5000)
   \<and> (\<forall>d. fst (run_saved_query w query_id params (PInt n)) = Inr d
            \<and> map_of d ''ok'' = Some (PBool True)
        \<longrightarrow> (\<exists>k. map_of d ''row_limit'' = Some (PInt k) \<and> 1 \<le> k \<and> k \<le> 5000
                \<and> Fetchmany k \<in> set (snd (run_saved_query w query_id params (PInt n)))))"
proof (intro conjI allI impI)
  fix k
  assume "Fetchmany k \<in> set (snd (run_saved_query w query_id params (PInt n)))"
  then obtain sql where "Fetchmany k \<in> set (snd (try_block w query_id sql params (max 1 (min n 5000))))"
    by (auto simp: snd_run_saved_query split: option.splits)
  then have k: "k = max 1 (min n 5000)" by (rule try_block_fetchmany)
  then show "k = max 1 (min n 5000)" .
  from k show "1 \<le> k" by simp
  from k show "k \<le> 5000" by simp
next
  fix d
  let ?m = "max 1 (min n 5000)"
  assume a: "fst (run_saved_query w query_id params (PInt n)) = Inr d
      \<and> map_of d ''ok'' = Some (PBool True)"
  show "\<exists>k. map_of d ''row_limit'' = Some (PInt k) \<and> 1 \<le> k \<and> k \<le> 5000
          \<and> Fetchmany k \<in> set (snd (run_saved_query w query_id params (PInt n)))"
  proof (cases "map_of QUERIES query_id")
    case None
    with a show ?thesis by (auto simp: fst_run_saved_query)
  next
    case (Some sql)
    show ?thesis
    proof (cases "fst (try_block w query_id sql params ?m)")
      case (Inl e)
      with a Some show ?thesis
        by (auto simp: fst_run_saved_query failure_response_ok split: if_splits)
    next
      case (Inr d')
      with a Some have "d' = d" by (simp add: fst_run_saved_query)
      with Inr have t: "fst (try_block w query_id sql params ?m) = Inr d" by simp
      from try_block_success [OF t] obtain cur cols rows where
        d: "d = [(''ok'', PBool True),
                (''query_id'', PStr query_id),
                (''params_used'', if py_truthy params then params else PDict []),
                (''columns'', PList cols),
                (''rows'', PList rows),
                (''row_count_returned'', PInt (int (length rows))),
                (''row_limit'', PInt ?m)]"
        and tr: "snd (try_block w query_id sql params ?m) =
               snd (connect w) @ [Cursor, Execute sql PNone, Fetchmany ?m, CursorExit, ConnExit]"
        by blast
      have "map_of d ''row_limit'' = Some (PInt ?m)" by (simp add: d)
      moreover have "Fetchmany ?m \<in> set (snd (run_saved_query w query_id params (PInt n)))"
        using Some tr by (simp add: snd_run_saved_query)
      moreover have "1 \<le> ?m" "?m \<le> 5000" by simp_all
      ultimately show ?thesis by blast
    qed
  qed
qed

theorem row_limit_clamped_witness:
  "Fetchmany 1 \<in> set (snd (run_saved_query demo_world ''basic_query'' PNone (PInt (- 7))))
   \<and> Fetchmany 5000 \<in> set (snd (run_saved_query demo_world ''basic_query'' PNone (PInt 90000)))
   \<and> map_of (projr (fst (run_saved_query demo_world ''basic_query'' PNone (PInt 0)))) ''row_limit''
       = Some (PInt 1)"
  using row_limit_clamped [of demo_world "''basic_query''" PNone "- 7"]
  by (simp add: run_defs)

text \<open>
  C10. The whitelist test comes before \<^verbatim>\<open>int(max_rows)\<close>, which sits outside the
  \<^verbatim>\<open>try\<close> block: an unknown \<open>query_id\<close> gets the failure dict whatever \<open>max_rows\<close> and
  \<open>params\<close> are, while a whitelisted \<open>query_id\<close> with a \<open>max_rows\<close> that \<^verbatim>\<open>int()\<close> rejects
  makes \<^verbatim>\<open>run_saved_query\<close> raise that exception, before any connector call; such an
  input exists.
\<close>

theorem whitelist_check_precedes_conversion:
  "(\<forall>w query_id params max_rows.
      query_id \<notin> fst ` set QUERIES \<longrightarrow>
        run_saved_query w query_id params max_rows =
          (Inr [(''ok'', PBool False),
                (''error'', PStr (''Unknown query_id '' @ sq @ query_id @ sq)),
                (''allowed'', PList (map PStr (sort (map fst QUERIES))))], []))
   \<and> (\<forall>w query_id params max_rows e.
      query_id \<in> fst ` set QUERIES \<and> py_int w max_rows = Inl e \<longrightarrow>
        run_saved_query w query_id params max_rows = (Inl e, []))
   \<and> (\<exists>w query_id params max_rows e.
      query_id \<in> fst ` set QUERIES \<and> py_int w max_rows = Inl e
      \<and> run_saved_query w query_id params max_rows = (Inl e, []))"
proof (intro conjI allI impI)
  fix w query_id params max_rows
  assume "query_id \<notin> fst ` set QUERIES"
  then have "map_of QUERIES query_id = None" by (simp add: QUERIES_keys)
  then show "run_saved_query w query_id params max_rows =
          (Inr [(''ok'', PBool False),
                (''error'', PStr (''Unknown query_id '' @ sq @ query_id @ sq)),
                (''allowed'', PList (map PStr (sort (map fst QUERIES))))], [])"
    by (rule run_saved_query_unknown_eq)
next
  fix w :: world and query_id params max_rows e
  assume a: "query_id \<in> fst ` set QUERIES \<and> py_int w max_rows = Inl e"
  then obtain sql where "map_of QUERIES query_id = Some sql"
    using QUERIES_keys [of query_id] by (cases "map_of QUERIES query_id") auto
  with a show "run_saved_query w query_id params max_rows = (Inl e, [])"
    by (simp add: run_saved_query_def)
next
  have "''basic_query'' \<in> fst ` set QUERIES" by (simp add: QUERIES_def)
  moreover have "py_int demo_world PNone = Inl (int_type_error ''NoneType'')" by simp
  moreover have "run_saved_query demo_world ''basic_query'' PNone PNone
      = (Inl (int_type_error ''NoneType''), [])"
    by (simp add: run_saved_query_def QUERIES_def)
  ultimately show "\<exists>w query_id params max_rows e.
      query_id \<in> fst ` set QUERIES \<and> py_int w max_rows = Inl e
      \<and> run_saved_query w query_id params max_rows = (Inl e, [])"
    by blast
qed

theorem whitelist_check_precedes_conversion_witness:
  "''does_not_exist'' \<notin> fst ` set QUERIES
   \<and> run_saved_query demo_world ''does_not_exist'' (PInt 3) (PStr ''many'') =
       (Inr [(''ok'', PBool False),
             (''error'', PStr (''Unknown query_id '' @ sq @ ''does_not_exist'' @ sq)),
             (''allowed'', PList [PStr ''basic_query''])], [])
   \<and> ''basic_query'' \<in> fst ` set QUERIES
   \<and> py_int demo_world (PList []) = Inl (int_type_error ''list'')
   \<and> run_saved_query demo_world ''basic_query'' PNone (PList []) = (Inl (int_type_error ''list''), [])"
  using whitelist_check_precedes_conversion
  by (simp add: run_defs)

subsection \<open>Connecting\<close>

text \<open>
  C6. When \<^verbatim>\<open>SNOWFLAKE_AUTHENTICATOR\<close> is set to anything other than
  \<open>externalbrowser\<close>, \<^verbatim>\<open>_connect\<close> raises a \<^verbatim>\<open>ValueError\<close> whose message quotes the
  value found, and makes no connector call.
\<close>

theorem authenticator_rejected:
  assumes "environ w ''SNOWFLAKE_AUTHENTICATOR'' = Some a" and "a \<noteq> ''externalbrowser''"
  shows "connect w =
           (Inl (PyExc ''ValueError''
              (''SSO-only server: SNOWFLAKE_AUTHENTICATOR must be '' @ sq @ ''externalbrowser''
                 @ sq @ '' (got '' @ sq @ a @ sq @ '')'')), [])"
  using assms by (simp add: connect_def)

theorem authenticator_rejected_witness:
  "environ (demo_world\<lparr>environ := [''SNOWFLAKE_AUTHENTICATOR'' \<mapsto> ''password'']\<rparr>)
       ''SNOWFLAKE_AUTHENTICATOR'' = Some ''password''
   \<and> ''password'' \<noteq> ''externalbrowser''
   \<and> connect (demo_world\<lparr>environ := [''SNOWFLAKE_AUTHENTICATOR'' \<mapsto> ''password'']\<rparr>) =
       (Inl (PyExc ''ValueError''
          (''SSO-only server: SNOWFLAKE_AUTHENTICATOR must be '' @ sq @ ''externalbrowser''
             @ sq @ '' (got '' @ sq @ ''password'' @ sq @ '')'')), [])"
  using authenticator_rejected
    [of "demo_world\<lparr>environ := [''SNOWFLAKE_AUTHENTICATOR'' \<mapsto> ''password'']\<rparr>" "''password''"]
  by simp





subsection \<open>Successful and failed executions\<close>

lemma first_items_length: "first_items cs = Inr names \<Longrightarrow> length names = length cs"
proof (induction cs arbitrary: names)
  case Nil
  then show ?case by simp
next
  case (Cons c cs)
  then show ?case by (auto split: list.splits sum.splits)
qed

lemma column_names_length:
  "column_names desc = Inr cols \<Longrightarrow>
     length cols = (case desc of None \<Rightarrow> 0 | Some cs \<Rightarrow> length cs)"
  by (auto simp: column_names_def first_items_length split: option.splits if_splits)

lemma run_saved_query_success:
  assumes "fst (run_saved_query w q p m) = Inr d" and "map_of d ''ok'' = Some (PBool True)"
  shows "\<exists>sql n. map_of QUERIES q = Some sql \<and> py_int w m = Inr n
           \<and> fst (try_block w q sql p (max 1 (min n 5000))) = Inr d"
proof (cases "map_of QUERIES q")
  case None
  with assms show ?thesis by (auto simp: fst_run_saved_query)
next
  case (Some sql)
  show ?thesis
  proof (cases "py_int w m")
    case (Inl e)
    with assms Some show ?thesis by (simp add: fst_run_saved_query)
  next
    case (Inr n)
    show ?thesis
    proof (cases "fst (try_block w q sql p (max 1 (min n 5000)))")
      case (Inl e)
      with assms Some Inr show ?thesis
        by (auto simp: fst_run_saved_query failure_response_ok split: if_splits)
    next
      case Inr': (Inr d')
      with assms Some Inr show ?thesis by (simp add: fst_run_saved_query)
    qed
  qed
qed

text \<open>
  C4, as amended. In every response with \<open>ok: True\<close>, \<open>row_count_returned\<close> is
  \<open>len(rows)\<close>; when the cursor honours the DB-API contract, \<open>len(rows)\<close> is at most
  \<open>row_limit\<close> and every row is a tuple of \<open>len(columns)\<close> items.
\<close>

theorem success_invariants:
  assumes "fst (run_saved_query w query_id params max_rows) = Inr d"
    and "map_of d ''ok'' = Some (PBool True)"
  shows "\<exists>cols rows k.
           map_of d ''columns'' = Some (PList cols)
         \<and> map_of d ''rows'' = Some (PList rows)
         \<and> map_of d ''row_count_returned'' = Some (PInt (int (length rows)))
         \<and> map_of d ''row_limit'' = Some (PInt k)
         \<and> (dbapi_world w \<longrightarrow>
               int (length rows) \<le> k
               \<and> (\<forall>r\<in>set rows. \<exists>vs. r = PTuple vs \<and> length vs = length cols))"
proof -
  from run_saved_query_success [OF assms] obtain sql n where
    t: "fst (try_block w query_id sql params (max 1 (min n 5000))) = Inr d"
    by blast
  let ?k = "max 1 (min n 5000)"
  from try_block_success [OF t] obtain cur cols rows where
    ex: "cur_execute w sql PNone = Inr cur"
    and cn: "column_names (description cur) = Inr cols"
    and fm: "fetchmany cur ?k = Inr rows"
    and d: "d = [(''ok'', PBool True),
                (''query_id'', PStr query_id),
                (''params_used'', if py_truthy params then params else PDict []),
                (''columns'', PList cols),
                (''rows'', PList rows),
                (''row_count_returned'', PInt (int (length rows))),
                (''row_limit'', PInt ?k)]"
    by blast
  have len: "length cols = (case description cur of None \<Rightarrow> 0 | Some cs \<Rightarrow> length cs)"
    using cn by (rule column_names_length)
  have c: "dbapi_world w \<longrightarrow>
      int (length rows) \<le> ?k \<and> (\<forall>r\<in>set rows. \<exists>vs. r = PTuple vs \<and> length vs = length cols)"
  proof
    assume "dbapi_world w"
    then have "dbapi_cursor cur" using ex by (auto simp: dbapi_world_def)
    moreover have "1 \<le> ?k" by simp
    ultimately have "int (length rows) \<le> ?k
        \<and> (\<forall>r\<in>set rows. \<exists>vs. r = PTuple vs
              \<and> length vs = (case description cur of None \<Rightarrow> 0 | Some cs \<Rightarrow> length cs))"
      using fm unfolding dbapi_cursor_def by blast
    then show "int (length rows) \<le> ?k
        \<and> (\<forall>r\<in>set rows. \<exists>vs. r = PTuple vs \<and> length vs = length cols)"
      using len by simp
  qed
  have "map_of d ''columns'' = Some (PList cols)" by (simp add: d)
  moreover have "map_of d ''rows'' = Some (PList rows)" by (simp add: d)
  moreover have "map_of d ''row_count_returned'' = Some (PInt (int (length rows)))" by (simp add: d)
  moreover have "map_of d ''row_limit'' = Some (PInt ?k)" by (simp add: d)
  ultimately show ?thesis using c by blast
qed

lemma dbapi_demo_world: "dbapi_world demo_world"
  by (auto simp: dbapi_world_def dbapi_cursor_def demo_world_def demo_cursor_def)

theorem success_invariants_witness:
  "fst (run_saved_query demo_world ''basic_query'' PNone (PInt 500))
     = Inr (projr (fst (run_saved_query demo_world ''basic_query'' PNone (PInt 500))))
   \<and> map_of (projr (fst (run_saved_query demo_world ''basic_query'' PNone (PInt 500)))) ''ok''
       = Some (PBool True)
   \<and> dbapi_world demo_world
   \<and> map_of (projr (fst (run_saved_query demo_world ''basic_query'' PNone (PInt 500))))
         ''row_count_returned'' = Some (PInt 1)"
  using success_invariants [of demo_world "''basic_query''" PNone "PInt 500"
      "projr (fst (run_saved_query demo_world ''basic_query'' PNone (PInt 500)))"]
    dbapi_demo_world
  by (simp add: run_defs)

text \<open>
  C4, as stated, fails: \<^verbatim>\<open>run_saved_query\<close> returns what \<^verbatim>\<open>cur.fetchmany\<close> gives, neither
  truncated nor checked. With a cursor that gives two rows of one item for a limit of 1
  and has no description, the response has \<open>row_count_returned\<close> 2, \<open>row_limit\<close> 1 and no
  columns.
\<close>

theorem overfull_cursor_breaks_bounds:
  "run_saved_query overfull_world ''basic_query'' PNone (PInt 1) =
     (Inr [(''ok'', PBool True),
           (''query_id'', PStr ''basic_query''),
           (''params_used'', PDict []),
           (''columns'', PList []),
           (''rows'', PList [PTuple [PInt 1], PTuple [PInt 2]]),
           (''row_count_returned'', PInt 2),
           (''row_limit'', PInt 1)],
      [Connect [(''account'', PStr ''uipath_observability.west-europe.azure''),
                (''user'', PStr ''anurag.krishna@uipath.com''),
                (''warehouse'', PStr ''PROD_CUSTOMER_READ''),
                (''authenticator'', PStr ''externalbrowser''),
                (''client_session_keep_alive'', PBool True)],
       Cursor, Execute basic_query_sql PNone, Fetchmany 1, CursorExit, ConnExit])"
  by (simp add: run_defs world_defs)










subsection \<open>The driver's reader\<close>

text \<open>
  C9 fails on a blank line: \<^verbatim>\<open>read_rpc_response\<close> returns \<^verbatim>\<open>None\<close> at a line that is
  empty after stripping, although the stream still holds a well-formed message, which
  it would have returned had the blank line not been there.
\<close>

theorem blank_line_ends_reading:
  "read_rpc_response loads [Inr ''\<newline>'', Inr ''{}\<newline>''] = (Inr PNone, [], [Inr ''{}\<newline>''])
   \<and> read_rpc_response loads [Inr ''{}\<newline>''] =
        (case loads ''{}'' of
           Some msg \<Rightarrow> (Inr msg, [], [])
         | None \<Rightarrow> (Inr PNone, [''Non-JSON output: {}''], []))"
  by (simp add: py_strip_def py_isspace_def split: option.splits)

end
